theory Spec2Isabelle
  imports Complex_Main
begin

section \<open>Numbers\<close>

text \<open>
  The library computes on JavaScript numbers. They are modelled as real numbers:
  \<open>Math.cos\<close> and \<open>Math.sin\<close> are \<open>cos\<close> and \<open>sin\<close>, and arithmetic is exact.
  Rounding, infinities and NaN are outside the model.

  The constant \<open>Math.PI\<close> is not \<open>pi\<close> but the double nearest to it, \<open>Math_PI\<close> below,
  and the library's full turn \<open>2 * Math.PI\<close> is twice that double. Every function that
  reads \<open>Math.PI\<close> takes its value as the parameter \<open>PI\<close>: at \<open>Math_PI\<close> it is the program's
  constant, at \<open>pi\<close> it is the program read in exact arithmetic. On doubles the remainder
  \<open>%\<close> is computed without rounding, so at \<open>Math_PI\<close> the two normalising functions
  return exactly what the program returns.

  The remainder operator \<open>a % b\<close> of JavaScript takes the sign of the dividend: it is
  \<open>a - b * q\<close> where \<open>q\<close> is the quotient \<open>a / b\<close> rounded towards zero. The library
  only ever divides by the non-zero constants \<open>2 * Math.PI\<close> and \<open>360\<close>.
\<close>

definition trunc :: "real \<Rightarrow> int" where
  "trunc q = (if q < 0 then \<lceil>q\<rceil> else \<lfloor>q\<rfloor>)"

definition js_rem :: "real \<Rightarrow> real \<Rightarrow> real" where
  "js_rem a b = a - b * of_int (trunc (a / b))"

text \<open>The value of \<open>Math.PI\<close>: the double \<open>0x400921FB54442D18\<close>, as a fraction.\<close>

definition Math_PI :: real where
  "Math_PI = 884279719003555 / 281474976710656"

section \<open>Static angle helpers of class site3d\<close>

definition TwoPI :: "real \<Rightarrow> real" where
  "TwoPI PI = 2 * PI"

definition PI2 :: "real \<Rightarrow> real" where
  "PI2 PI = PI / 2"

definition normalizeRad :: "real \<Rightarrow> real \<Rightarrow> real" where
  "normalizeRad PI angle =
     (if \<bar>angle\<bar> = TwoPI PI then angle else js_rem angle (TwoPI PI))"

definition minRotationAngle :: "real \<Rightarrow> real \<Rightarrow> real \<Rightarrow> real" where
  "minRotationAngle PI start endv =
     (if \<bar>start - endv\<bar> > PI
      then endv + (if start > 0 then TwoPI PI else - TwoPI PI)
      else endv)"

definition normalizeDeg :: "real \<Rightarrow> real" where
  "normalizeDeg angle = (if \<bar>angle\<bar> = 360 then angle else js_rem angle 360)"

definition toRad :: "real \<Rightarrow> real \<Rightarrow> real" where
  "toRad PI angle = normalizeDeg angle * (PI / 180)"

definition toDeg :: "real \<Rightarrow> real \<Rightarrow> real" where
  "toDeg PI angle = normalizeRad PI angle * (180 / PI)"

section \<open>The engine's objects\<close>

text \<open>
  \<open>Vector3\<close>, \<open>Object3D\<close> and the methods that turn an object belong to the rendering
  engine, not to this library. An object is its position and its orientation; the type
  \<open>'r\<close> of orientations and the engine's methods on it are parameters of the model. The
  methods \<open>rotateX\<close>, \<open>rotateY\<close>, \<open>rotateZ\<close> and \<open>rotateOnWorldAxis\<close> turn the object
  and leave its position alone; \<open>lookAt\<close> reads the object's position and the target and
  sets the orientation.
\<close>

datatype Vector3 = Vector3 (vec_x: real) (vec_y: real) (vec_z: real)

record 'r Object3D =
  position :: Vector3
  orientation :: 'r

record 'r engine =
  rotateX :: "real \<Rightarrow> 'r \<Rightarrow> 'r"
  rotateY :: "real \<Rightarrow> 'r \<Rightarrow> 'r"
  rotateZ :: "real \<Rightarrow> 'r \<Rightarrow> 'r"
  rotateOnWorldAxis :: "Vector3 \<Rightarrow> real \<Rightarrow> 'r \<Rightarrow> 'r"
  lookAt :: "Vector3 \<Rightarrow> Vector3 \<Rightarrow> 'r \<Rightarrow> 'r"

definition obj_rotateX :: "'r engine \<Rightarrow> real \<Rightarrow> 'r Object3D \<Rightarrow> 'r Object3D" where
  "obj_rotateX E a ob = ob\<lparr>orientation := rotateX E a (orientation ob)\<rparr>"

definition obj_rotateY :: "'r engine \<Rightarrow> real \<Rightarrow> 'r Object3D \<Rightarrow> 'r Object3D" where
  "obj_rotateY E a ob = ob\<lparr>orientation := rotateY E a (orientation ob)\<rparr>"

definition obj_rotateZ :: "'r engine \<Rightarrow> real \<Rightarrow> 'r Object3D \<Rightarrow> 'r Object3D" where
  "obj_rotateZ E a ob = ob\<lparr>orientation := rotateZ E a (orientation ob)\<rparr>"

definition obj_rotateOnWorldAxis ::
  "'r engine \<Rightarrow> Vector3 \<Rightarrow> real \<Rightarrow> 'r Object3D \<Rightarrow> 'r Object3D" where
  "obj_rotateOnWorldAxis E ax a ob = ob\<lparr>orientation := rotateOnWorldAxis E ax a (orientation ob)\<rparr>"

definition obj_lookAt :: "'r engine \<Rightarrow> Vector3 \<Rightarrow> 'r Object3D \<Rightarrow> 'r Object3D" where
  "obj_lookAt E tgt ob = ob\<lparr>orientation := lookAt E (position ob) tgt (orientation ob)\<rparr>"

text \<open>
  A recording engine, for running the model on concrete inputs: the orientation of an
  object is the list of the engine calls made on it, oldest first.
\<close>

datatype engine_call =
    RotateX real
  | RotateY real
  | RotateZ real
  | RotateOnWorldAxis Vector3 real
  | LookAt Vector3 Vector3

definition recording :: "engine_call list engine" where
  "recording =
     \<lparr>rotateX = (\<lambda>a r. r @ [RotateX a]),
      rotateY = (\<lambda>a r. r @ [RotateY a]),
      rotateZ = (\<lambda>a r. r @ [RotateZ a]),
      rotateOnWorldAxis = (\<lambda>ax a r. r @ [RotateOnWorldAxis ax a]),
      lookAt = (\<lambda>p t r. r @ [LookAt p t])\<rparr>"

section \<open>Class site3d: the camera\<close>

text \<open>
  The field \<open>_axis\<close> is assigned once, in the constructor, and never written again.
\<close>

definition axis_x :: Vector3 where "axis_x = Vector3 1 0 0"
definition axis_y :: Vector3 where "axis_y = Vector3 0 1 0"
definition axis_z :: Vector3 where "axis_z = Vector3 0 0 1"

text \<open>The field \<open>_cameraRotateOptions\<close>.\<close>

record rotate_options =
  target :: Vector3
  axe :: string
  isLook :: bool

record 'r site3d =
  camera :: "'r Object3D"
  cameraRotateOptions :: rotate_options

text \<open>
  The constructor's values: the camera options start as target \<open>(0, 0, 0)\<close>, axis
  \<open>'y'\<close>, \<open>isLook\<close> true, and \<open>camera({..., pos: [0, 0, 1]})\<close> places the camera.
\<close>

definition initial :: "'r \<Rightarrow> 'r site3d" where
  "initial r =
     \<lparr>camera = \<lparr>position = Vector3 0 0 1, orientation = r\<rparr>,
      cameraRotateOptions = \<lparr>target = Vector3 0 0 0, axe = ''y'', isLook = True\<rparr>\<rparr>"

definition cameraPos :: "Vector3 \<Rightarrow> 'r site3d \<Rightarrow> 'r site3d" where
  "cameraPos p s = s\<lparr>camera := (camera s)\<lparr>position := p\<rparr>\<rparr>"

definition getCameraPos :: "'r site3d \<Rightarrow> Vector3" where
  "getCameraPos s = position (camera s)"

definition rotateCameraWorldRad ::
  "'r engine \<Rightarrow> real \<Rightarrow> real \<Rightarrow> real \<Rightarrow> 'r site3d \<Rightarrow> 'r site3d" where
  "rotateCameraWorldRad E stepX stepY stepZ s =
     s\<lparr>camera :=
        obj_rotateOnWorldAxis E axis_y stepY
          (obj_rotateOnWorldAxis E axis_y stepY
            (obj_rotateOnWorldAxis E axis_x stepX (camera s)))\<rparr>"

text \<open>
  The arguments of \<open>rotateCamera(p1, p2, p3)\<close> are JavaScript values: a missing argument
  is \<open>undefined\<close>, an array argument is a point \<open>[x, y, z]\<close>, and the options object
  \<open>{pos, axe, isLook}\<close> may leave any of its fields out.
\<close>

record orbit_args =
  arg_pos :: "Vector3 option"
  arg_axe :: "string option"
  arg_isLook :: "bool option"

datatype jsval = Undefined | Num real | Arr Vector3 | Obj orbit_args

text \<open>
  The three assignments guarded by \<open>p2 !== undefined\<close>. A number or an array has none
  of the three fields, so only an options object changes anything.
\<close>

definition setRotateOptions :: "jsval \<Rightarrow> rotate_options \<Rightarrow> rotate_options" where
  "setRotateOptions p2 opts =
     (case p2 of
        Obj a \<Rightarrow>
          (let o1 = (case arg_pos a of Some p \<Rightarrow> opts\<lparr>target := p\<rparr> | None \<Rightarrow> opts);
               o2 = (case arg_axe a of Some ax \<Rightarrow> o1\<lparr>axe := ax\<rparr> | None \<Rightarrow> o1)
           in (case arg_isLook a of Some b \<Rightarrow> o2\<lparr>isLook := b\<rparr> | None \<Rightarrow> o2))
      | _ \<Rightarrow> opts)"

text \<open>
  The orbit step proper: the statements of \<open>rotateCamera\<close> from \<open>const angle\<close> on, with
  the angle in degrees. Both new coordinates are computed from the old position before
  either is stored.
\<close>

definition orbit :: "'r engine \<Rightarrow> real \<Rightarrow> real \<Rightarrow> 'r site3d \<Rightarrow> 'r site3d" where
  "orbit E PI p1 s =
     (let angle = toRad PI p1;
          opts = cameraRotateOptions s;
          cam = camera s;
          cam1 =
            (if axe opts = ''y'' then
               (let x0 = vec_x (target opts);
                    z0 = vec_z (target opts);
                    px = vec_x (position cam);
                    pz = vec_z (position cam);
                    x1 = x0 + (px - x0) * cos angle - (pz - z0) * sin angle;
                    z1 = z0 + (pz - z0) * cos angle + (px - x0) * sin angle
                in cam\<lparr>position := Vector3 x1 (vec_y (position cam)) z1\<rparr>)
             else cam);
          cam2 = (if isLook opts then obj_lookAt E (target opts) cam1 else cam1)
      in s\<lparr>camera := cam2\<rparr>)"

text \<open>
  \<open>rotateCamera\<close> dispatches on the shape of its arguments. A call whose arguments are
  not numbers where the code computes with them (JavaScript would go on with NaN) is
  outside the model: the result is \<open>None\<close>.
\<close>

definition rotateCamera ::
  "'r engine \<Rightarrow> real \<Rightarrow> jsval \<Rightarrow> jsval \<Rightarrow> jsval \<Rightarrow> 'r site3d \<Rightarrow> 'r site3d option" where
  "rotateCamera E PI p1 p2 p3 s =
     (if p3 \<noteq> Undefined then
        (case (p1, p2, p3) of
           (Num a, Num b, Num c) \<Rightarrow>
             Some (s\<lparr>camera :=
               obj_rotateZ E (toRad PI c)
                 (obj_rotateY E (toRad PI b) (obj_rotateX E (toRad PI a) (camera s)))\<rparr>)
         | _ \<Rightarrow> None)
      else
        (case p1 of
           Arr v \<Rightarrow> Some (s\<lparr>camera := obj_lookAt E v (camera s)\<rparr>)
         | Num a \<Rightarrow>
             Some (orbit E PI a
               (if p2 \<noteq> Undefined
                then s\<lparr>cameraRotateOptions := setRotateOptions p2 (cameraRotateOptions s)\<rparr>
                else s))
         | _ \<Rightarrow> None))"

section \<open>Class site3dModel\<close>

text \<open>
  A model's \<open>OBJECT\<close> is \<open>null\<close> until its geometry is there (a text model waits for
  its font); a method call on \<open>null\<close> throws a TypeError.
\<close>

datatype js_error = TypeError

record 'r site3dModel =
  name :: string
  OBJECT :: "'r Object3D option"

definition rotateWorldRad ::
  "'r engine \<Rightarrow> real \<Rightarrow> real \<Rightarrow> real \<Rightarrow> 'r site3dModel \<Rightarrow> js_error + 'r site3dModel" where
  "rotateWorldRad E stepX stepY stepZ m =
     (case OBJECT m of
        None \<Rightarrow> Inl TypeError
      | Some ob \<Rightarrow>
          Inr (m\<lparr>OBJECT := Some
            (obj_rotateOnWorldAxis E axis_y stepY
              (obj_rotateOnWorldAxis E axis_y stepY
                (obj_rotateOnWorldAxis E axis_x stepX ob)))\<rparr>))"

section \<open>Sample states\<close>

text \<open>
  Concrete states on the recording engine, for running the model: a camera at
  \<open>(3, 2, 5)\<close> orbiting the point \<open>(1, 1, 1)\<close> about \<open>'y'\<close>; a camera at \<open>(0, 0, 5)\<close>
  whose stored axis is \<open>'x'\<close>; and a loaded model at the origin.
\<close>

definition st1 :: "engine_call list site3d" where
  "st1 = \<lparr>camera = \<lparr>position = Vector3 3 2 5, orientation = []\<rparr>,
      cameraRotateOptions = \<lparr>target = Vector3 1 1 1, axe = ''y'', isLook = False\<rparr>\<rparr>"

definition st_x :: "engine_call list site3d" where
  "st_x = \<lparr>camera = \<lparr>position = Vector3 0 0 5, orientation = []\<rparr>,
      cameraRotateOptions = \<lparr>target = Vector3 0 0 0, axe = ''x'', isLook = True\<rparr>\<rparr>"

definition model1 :: "engine_call list site3dModel" where
  "model1 = \<lparr>name = ''cube'', OBJECT = Some \<lparr>position = Vector3 0 0 0, orientation = []\<rparr>\<rparr>"

section \<open>The remainder operator\<close>

lemma js_rem_small: "\<bar>a\<bar> < b \<Longrightarrow> js_rem a b = a"
proof -
  assume h: "\<bar>a\<bar> < b"
  then have b: "0 < b" by linarith
  from h b have q: "-1 < a / b" "a / b < 1"
    by (simp_all add: field_simps)
  show ?thesis
  proof (cases "a / b < 0")
    case True
    with q have "\<lceil>a / b\<rceil> = 0" by (simp add: ceiling_eq_iff)
    with True show ?thesis by (simp add: js_rem_def trunc_def)
  next
    case False
    with q have "\<lfloor>a / b\<rfloor> = 0" by (simp add: floor_eq_iff)
    with False show ?thesis by (simp add: js_rem_def trunc_def)
  qed
qed

lemma js_rem_nonneg:
  assumes "0 < b" "0 \<le> a"
  shows "0 \<le> js_rem a b \<and> js_rem a b < b"
proof -
  from assms have q: "\<not> a / b < 0" by (simp add: field_simps)
  have e: "b * (a / b) = a" using assms by simp
  have "b * of_int \<lfloor>a / b\<rfloor> \<le> b * (a / b)"
    using assms by (intro mult_left_mono) simp_all
  with e have g1: "b * of_int \<lfloor>a / b\<rfloor> \<le> a" by simp
  have "a / b < of_int \<lfloor>a / b\<rfloor> + 1" by linarith
  then have "b * (a / b) < b * (of_int \<lfloor>a / b\<rfloor> + 1)"
    using assms by (intro mult_strict_left_mono) simp_all
  with e have g2: "a < b * of_int \<lfloor>a / b\<rfloor> + b" by (simp add: algebra_simps)
  from q g1 g2 show ?thesis by (simp add: js_rem_def trunc_def)
qed

lemma js_rem_nonpos:
  assumes "0 < b" "a \<le> 0"
  shows "- b < js_rem a b \<and> js_rem a b \<le> 0"
proof (cases "a / b < 0")
  case True
  have e: "b * (a / b) = a" using assms by simp
  have "b * (a / b) \<le> b * of_int \<lceil>a / b\<rceil>"
    using assms by (intro mult_left_mono) simp_all
  with e have g1: "a \<le> b * of_int \<lceil>a / b\<rceil>" by simp
  have "of_int \<lceil>a / b\<rceil> - 1 < a / b" by linarith
  then have "b * (of_int \<lceil>a / b\<rceil> - 1) < b * (a / b)"
    using assms by (intro mult_strict_left_mono) simp_all
  with e have g2: "b * of_int \<lceil>a / b\<rceil> - b < a" by (simp add: algebra_simps)
  from True g1 g2 show ?thesis by (simp add: js_rem_def trunc_def)
next
  case False
  with assms have "a = 0" by (simp add: field_simps)
  with assms show ?thesis by (simp add: js_rem_def trunc_def)
qed

lemma js_rem_cong: "\<exists>k::int. js_rem a b = a + b * of_int k"
proof
  show "js_rem a b = a + b * of_int (- trunc (a / b))"
    by (simp add: js_rem_def)
qed

section \<open>Bounds on \<open>pi\<close>\<close>

text \<open>
  Four digits of \<open>pi\<close>, from the Taylor polynomial of the sine at a sixth of the
  candidate value and \<open>sin (pi / 6) = 1 / 2\<close>.
\<close>

lemma sin_poly: "(\<Sum>m<7. sin_coeff m * x ^ m) = x - x ^ 3 / 6 + x ^ 5 / 120" for x :: real
  by (simp add: sin_coeff_def lessThan_nat_numeral fact_numeral)

lemma sin_enclosure:
  "\<bar>sin x - (x - x ^ 3 / 6 + x ^ 5 / 120)\<bar> \<le> \<bar>x\<bar> ^ 7 / 5040" for x :: real
proof -
  have f: "inverse (fact 7) = (1 / 5040 :: real)"
    by (simp add: fact_numeral inverse_eq_divide)
  have "\<bar>sin x - (\<Sum>m<7. sin_coeff m * x ^ m)\<bar> \<le> inverse (fact 7) * \<bar>x\<bar> ^ 7"
    by (rule Maclaurin_sin_bound)
  then show ?thesis
    unfolding sin_poly f by simp
qed

lemma sin_below_half: "sin (3.1415 / 6 :: real) < 1 / 2"
proof -
  define x :: real where "x = 3.1415 / 6"
  have "sin x \<le> (x - x ^ 3 / 6 + x ^ 5 / 120) + \<bar>x\<bar> ^ 7 / 5040"
    using sin_enclosure [of x] by linarith
  also have "\<dots> < 1 / 2"
    unfolding x_def by (simp add: power_divide)
  finally show ?thesis unfolding x_def .
qed

lemma sin_above_half: "1 / 2 < sin (3.142 / 6 :: real)"
proof -
  define x :: real where "x = 3.142 / 6"
  have "1 / 2 < (x - x ^ 3 / 6 + x ^ 5 / 120) - \<bar>x\<bar> ^ 7 / 5040"
    unfolding x_def by (simp add: power_divide)
  also have "\<dots> \<le> sin x"
    using sin_enclosure [of x] by linarith
  finally show ?thesis unfolding x_def .
qed

lemma pi_lower: "3.1415 < pi"
proof (rule ccontr)
  assume "\<not> 3.1415 < pi"
  then have le: "pi \<le> 3.1415" by simp
  have "sin (pi / 6) \<le> sin (3.1415 / 6)"
    using le pi_ge_two by (subst sin_mono_le_eq) simp_all 
  with sin_below_half show False by (simp add: sin_30)
qed

lemma pi_upper: "pi < 3.142"
proof (rule ccontr)
  assume "\<not> pi < 3.142"
  then have le: "3.142 \<le> pi" by simp
  have "sin (3.142 / 6) \<le> sin (pi / 6)"
    using le by (subst sin_mono_le_eq) simp_all 
  with sin_above_half show False by (simp add: sin_30)
qed


section \<open>Normalising and converting angles\<close>

lemma normalizeRad_small: "\<bar>a\<bar> < 2 * PI \<Longrightarrow> normalizeRad PI a = a"
  by (simp add: normalizeRad_def TwoPI_def js_rem_small)

lemma normalizeDeg_small: "\<bar>d\<bar> < 360 \<Longrightarrow> normalizeDeg d = d"
  by (simp add: normalizeDeg_def js_rem_small)

lemma toRad_small: "\<bar>d\<bar> < 360 \<Longrightarrow> toRad PI d = d * (PI / 180)"
  by (simp add: toRad_def normalizeDeg_small)

lemma normalizeDeg_bound: "\<bar>d\<bar> \<noteq> 360 \<Longrightarrow> \<bar>normalizeDeg d\<bar> < 360"
  using js_rem_nonneg [of 360 d] js_rem_nonpos [of 360 d]
  by (cases "0 \<le> d") (simp_all add: normalizeDeg_def)

lemma normalizeRad_bound:
  "0 < PI \<Longrightarrow> \<bar>a\<bar> \<noteq> 2 * PI \<Longrightarrow> \<bar>normalizeRad PI a\<bar> < 2 * PI"
  using js_rem_nonneg [of "2 * PI" a] js_rem_nonpos [of "2 * PI" a]
  by (cases "0 \<le> a") (simp_all add: normalizeRad_def TwoPI_def)

lemma normalizeDeg_cong: "\<exists>k::int. normalizeDeg d = d + 360 * of_int k"
proof (cases "\<bar>d\<bar> = 360")
  case True
  then have "normalizeDeg d = d + 360 * of_int 0" by (simp add: normalizeDeg_def)
  then show ?thesis ..
next
  case False
  then show ?thesis using js_rem_cong [of d 360] by (simp add: normalizeDeg_def)
qed

lemma normalizeRad_cong: "\<exists>k::int. normalizeRad PI a = a + 2 * PI * of_int k"
proof (cases "\<bar>a\<bar> = 2 * PI")
  case True
  then have "normalizeRad PI a = a + 2 * PI * of_int 0"
    by (simp add: normalizeRad_def TwoPI_def)
  then show ?thesis ..
next
  case False
  then show ?thesis
    using js_rem_cong [of a "2 * PI"] by (simp add: normalizeRad_def TwoPI_def)
qed

lemma toRad_cong: "\<exists>k::int. toRad PI d = d * (PI / 180) + 2 * PI * of_int k"
proof -
  from normalizeDeg_cong obtain k :: int where "normalizeDeg d = d + 360 * of_int k" ..
  then have "toRad PI d = d * (PI / 180) + 2 * PI * of_int k"
    by (simp add: toRad_def algebra_simps)
  then show ?thesis ..
qed

lemma cos_toRad: "cos (toRad pi d) = cos (d * (pi / 180))"
proof -
  from toRad_cong obtain k :: int where "toRad pi d = d * (pi / 180) + 2 * pi * of_int k" ..
  then show ?thesis by (simp only: cos_add cos_int_2pin sin_int_2pin)
qed

lemma sin_toRad: "sin (toRad pi d) = sin (d * (pi / 180))"
proof -
  from toRad_cong obtain k :: int where "toRad pi d = d * (pi / 180) + 2 * pi * of_int k" ..
  then show ?thesis by (simp only: sin_add cos_int_2pin sin_int_2pin)
qed

lemma toRad_90: "toRad PI 90 = PI / 2"
  by (simp add: toRad_small)

lemma toRad_180: "toRad PI 180 = PI"
  by (simp add: toRad_small)

lemma js_rem_450: "js_rem 450 360 = 90"
proof -
  have "\<lfloor>450 / 360 :: real\<rfloor> = 1" by (simp add: floor_eq_iff)
  then show ?thesis by (simp add: js_rem_def trunc_def)
qed

lemma normalizeDeg_450: "normalizeDeg 450 = 90"
  by (simp add: normalizeDeg_def js_rem_450)

lemma js_rem_three_turns: "0 < PI \<Longrightarrow> js_rem (3 * PI) (2 * PI) = PI"
proof -
  assume "0 < PI"
  then have q: "3 * PI / (2 * PI) = 3 / 2" by simp
  have "\<lfloor>3 / 2 :: real\<rfloor> = 1" by (simp add: floor_eq_iff)
  with q show ?thesis by (simp add: js_rem_def trunc_def)
qed

lemma normalizeRad_three_turns: "0 < PI \<Longrightarrow> normalizeRad PI (3 * PI) = PI"
  by (simp add: normalizeRad_def TwoPI_def js_rem_three_turns)

text \<open>
  Claim C6. An angle of exactly one full turn passes through unchanged, in either
  direction and in either unit: \<open>normalizeRad\<close> returns \<open>2 * pi\<close> for \<open>2 * pi\<close> and
  \<open>- (2 * pi)\<close> for \<open>- (2 * pi)\<close>, \<open>normalizeDeg\<close> returns \<open>360\<close> for \<open>360\<close> and
  \<open>- 360\<close> for \<open>- 360\<close>; none of the four is reduced to \<open>0\<close>. The same holds with the
  program's own constant \<open>Math_PI\<close> in place of \<open>pi\<close>.
\<close>

theorem full_turn_pass_through:
  "normalizeRad pi (2 * pi) = 2 * pi \<and> normalizeRad pi (- (2 * pi)) = - (2 * pi)
   \<and> normalizeDeg 360 = 360 \<and> normalizeDeg (- 360) = - 360
   \<and> normalizeRad pi (2 * pi) \<noteq> 0 \<and> normalizeRad pi (- (2 * pi)) \<noteq> 0
   \<and> normalizeDeg 360 \<noteq> 0 \<and> normalizeDeg (- 360) \<noteq> 0
   \<and> normalizeRad Math_PI (2 * Math_PI) = 2 * Math_PI
   \<and> normalizeRad Math_PI (- (2 * Math_PI)) = - (2 * Math_PI)
   \<and> normalizeRad Math_PI (2 * Math_PI) \<noteq> 0 \<and> normalizeRad Math_PI (- (2 * Math_PI)) \<noteq> 0"
  by (simp add: normalizeRad_def normalizeDeg_def TwoPI_def Math_PI_def)

text \<open>
  Claim C8. \<open>toRad\<close> normalises its argument in degrees and then multiplies by
  \<open>PI / 180\<close>; \<open>toDeg\<close> normalises its argument in radians and then multiplies by
  \<open>180 / PI\<close>. So \<open>toRad\<close> of \<open>450\<close> degrees is a quarter turn and \<open>toDeg\<close> of a turn and
  a half is \<open>180\<close>; \<open>toDeg\<close> stays below \<open>360\<close> in magnitude off the full turn, and \<open>toRad\<close>
  below a full turn off \<open>360\<close>. Converting degrees to radians and back gives the
  normalised degrees: \<open>toDeg (toRad d) = normalizeDeg d\<close> for every \<open>d\<close>, exactly. All this
  holds for every positive value \<open>PI\<close> of \<open>Math.PI\<close>, \<open>pi\<close> and the program's double among
  them.
\<close>

theorem toDeg_toRad:
  assumes "0 < PI"
  shows "toDeg PI (toRad PI d) = normalizeDeg d
    \<and> toRad PI d = normalizeDeg d * (PI / 180)
    \<and> toDeg PI a = normalizeRad PI a * (180 / PI)
    \<and> (\<bar>a\<bar> \<noteq> 2 * PI \<longrightarrow> \<bar>toDeg PI a\<bar> < 360)
    \<and> (\<bar>d\<bar> \<noteq> 360 \<longrightarrow> \<bar>toRad PI d\<bar> < 2 * PI)
    \<and> toRad PI 450 = PI / 2
    \<and> toDeg PI (3 * PI) = 180"
proof (intro conjI impI)
  show "toDeg PI (toRad PI d) = normalizeDeg d"
  proof (cases "\<bar>d\<bar> = 360")
    case True
    then have n: "normalizeDeg d = d" by (simp add: normalizeDeg_def)
    from True assms have "\<bar>d * (PI / 180)\<bar> = 2 * PI" by (simp add: abs_mult)
    then have "normalizeRad PI (d * (PI / 180)) = d * (PI / 180)"
      by (simp add: normalizeRad_def TwoPI_def)
    with n assms show ?thesis by (simp add: toDeg_def toRad_def)
  next
    case False
    then have "\<bar>normalizeDeg d\<bar> < 360" by (rule normalizeDeg_bound)
    then have "\<bar>normalizeDeg d\<bar> * (PI / 180) < 360 * (PI / 180)"
      using assms by (intro mult_strict_right_mono) simp_all
    then have "\<bar>normalizeDeg d * (PI / 180)\<bar> < 2 * PI"
      using assms by (simp add: abs_mult)
    then have "normalizeRad PI (normalizeDeg d * (PI / 180)) = normalizeDeg d * (PI / 180)"
      by (rule normalizeRad_small)
    with assms show ?thesis by (simp add: toDeg_def toRad_def)
  qed
next
  show "toRad PI d = normalizeDeg d * (PI / 180)" by (simp add: toRad_def)
next
  show "toDeg PI a = normalizeRad PI a * (180 / PI)" by (simp add: toDeg_def)
next
  assume "\<bar>a\<bar> \<noteq> 2 * PI"
  with assms have "\<bar>normalizeRad PI a\<bar> < 2 * PI" by (rule normalizeRad_bound)
  then have "\<bar>normalizeRad PI a\<bar> * (180 / PI) < 2 * PI * (180 / PI)"
    using assms by (intro mult_strict_right_mono) simp_all
  with assms show "\<bar>toDeg PI a\<bar> < 360" by (simp add: toDeg_def abs_mult)
next
  assume "\<bar>d\<bar> \<noteq> 360"
  then have "\<bar>normalizeDeg d\<bar> < 360" by (rule normalizeDeg_bound)
  then have "\<bar>normalizeDeg d\<bar> * (PI / 180) < 360 * (PI / 180)"
    using assms by (intro mult_strict_right_mono) simp_all
  with assms show "\<bar>toRad PI d\<bar> < 2 * PI" by (simp add: toRad_def abs_mult)
next
  show "toRad PI 450 = PI / 2" by (simp add: toRad_def normalizeDeg_450)
next
  from assms show "toDeg PI (3 * PI) = 180"
    by (simp add: toDeg_def normalizeRad_three_turns)
qed

theorem toDeg_toRad_witness:
  "0 < pi
   \<and> toDeg pi (toRad pi 450) = 90 \<and> toRad pi 450 = pi / 2 \<and> toDeg pi (3 * pi) = 180
   \<and> \<bar>3 * pi\<bar> \<noteq> 2 * pi \<and> \<bar>toDeg pi (3 * pi)\<bar> < 360
   \<and> \<bar>450 :: real\<bar> \<noteq> 360 \<and> \<bar>toRad pi 450\<bar> < 2 * pi"
proof -
  have p: "0 < pi" by simp
  have h: "\<bar>3 * pi\<bar> \<noteq> 2 * pi" by simp
  have g: "\<bar>450 :: real\<bar> \<noteq> 360" by simp
  note t = toDeg_toRad [OF p, of 450 "3 * pi"]
  from t have a: "toDeg pi (toRad pi 450) = normalizeDeg 450" by blast
  from t have b: "toRad pi 450 = pi / 2" by blast
  from t have c: "toDeg pi (3 * pi) = 180" by blast
  from t h have d: "\<bar>toDeg pi (3 * pi)\<bar> < 360" by blast
  from t g have e: "\<bar>toRad pi 450\<bar> < 2 * pi" by blast
  from a have a': "toDeg pi (toRad pi 450) = 90" by (simp only: normalizeDeg_450)
  from p a' b c h d g e show ?thesis by blast
qed

text \<open>
  Claim C3, as the code has it. The remainder keeps the sign of its dividend, so a
  negative angle normalises to a negative one; and the full turn of \<open>normalizeRad\<close> is
  the library's constant \<open>2 * Math.PI\<close>. For every positive value \<open>PI\<close> of \<open>Math.PI\<close> and
  every \<open>a\<close> whose magnitude is not \<open>2 * PI\<close>, the magnitude of \<open>normalizeRad a\<close> is below
  \<open>2 * PI\<close>, \<open>normalizeRad a\<close> is not negative for \<open>a \<ge> 0\<close> and not positive for
  \<open>a \<le> 0\<close>, and it differs from \<open>a\<close> by a whole number of turns of \<open>2 * PI\<close>. The same
  holds for \<open>normalizeDeg\<close> with \<open>360\<close>.
\<close>

theorem normalize_range:
  assumes "0 < PI"
  shows "(\<bar>a\<bar> \<noteq> 2 * PI \<longrightarrow>
      \<bar>normalizeRad PI a\<bar> < 2 * PI
      \<and> (0 \<le> a \<longrightarrow> 0 \<le> normalizeRad PI a) \<and> (a \<le> 0 \<longrightarrow> normalizeRad PI a \<le> 0)
      \<and> (\<exists>k::int. normalizeRad PI a = a + 2 * PI * of_int k))
   \<and> (\<bar>d\<bar> \<noteq> 360 \<longrightarrow>
      \<bar>normalizeDeg d\<bar> < 360
      \<and> (0 \<le> d \<longrightarrow> 0 \<le> normalizeDeg d) \<and> (d \<le> 0 \<longrightarrow> normalizeDeg d \<le> 0)
      \<and> (\<exists>k::int. normalizeDeg d = d + 360 * of_int k))"
proof (intro conjI impI)
  assume "\<bar>a\<bar> \<noteq> 2 * PI"
  with assms show "\<bar>normalizeRad PI a\<bar> < 2 * PI" by (rule normalizeRad_bound)
next
  assume "\<bar>a\<bar> \<noteq> 2 * PI" "0 \<le> a"
  with assms show "0 \<le> normalizeRad PI a"
    using js_rem_nonneg [of "2 * PI" a] by (simp add: normalizeRad_def TwoPI_def)
next
  assume "\<bar>a\<bar> \<noteq> 2 * PI" "a \<le> 0"
  with assms show "normalizeRad PI a \<le> 0"
    using js_rem_nonpos [of "2 * PI" a] by (simp add: normalizeRad_def TwoPI_def)
next
  show "\<exists>k::int. normalizeRad PI a = a + 2 * PI * of_int k" by (rule normalizeRad_cong)
next
  assume "\<bar>d\<bar> \<noteq> 360"
  then show "\<bar>normalizeDeg d\<bar> < 360" by (rule normalizeDeg_bound)
next
  assume "\<bar>d\<bar> \<noteq> 360" "0 \<le> d"
  then show "0 \<le> normalizeDeg d"
    using js_rem_nonneg [of 360 d] by (simp add: normalizeDeg_def)
next
  assume "\<bar>d\<bar> \<noteq> 360" "d \<le> 0"
  then show "normalizeDeg d \<le> 0"
    using js_rem_nonpos [of 360 d] by (simp add: normalizeDeg_def)
next
  show "\<exists>k::int. normalizeDeg d = d + 360 * of_int k" by (rule normalizeDeg_cong)
qed

text \<open>
  At the program's constant and the angle \<open>10 ^ 22\<close>: the quotient by the full turn
  truncates to \<open>1591549430918953419730\<close>, and the remainder lies between \<open>1.0634\<close> and
  \<open>1.0635\<close>.
\<close>

lemma js_rem_large:
  "js_rem (10 ^ 22) (2 * Math_PI) = 10 ^ 22 - 2 * Math_PI * 1591549430918953419730"
proof -
  have "\<lfloor>10 ^ 22 / (2 * Math_PI)\<rfloor> = 1591549430918953419730"
    by (simp add: Math_PI_def floor_eq_iff)
  moreover have "\<not> 10 ^ 22 / (2 * Math_PI) < 0" by (simp add: Math_PI_def)
  ultimately show ?thesis by (simp add: js_rem_def trunc_def)
qed

lemma normalizeRad_large:
  "normalizeRad Math_PI (10 ^ 22) = 10 ^ 22 - 2 * Math_PI * 1591549430918953419730"
proof -
  have g: "\<bar>10 ^ 22\<bar> \<noteq> 2 * Math_PI" by (simp add: Math_PI_def)
  show ?thesis by (simp only: normalizeRad_def TwoPI_def g if_False js_rem_large)
qed

theorem normalize_range_witness:
  "0 < Math_PI \<and> \<bar>10 ^ 22\<bar> \<noteq> 2 * Math_PI
   \<and> normalizeRad Math_PI (10 ^ 22) = 10 ^ 22 - 2 * Math_PI * 1591549430918953419730
   \<and> 1.0634 < normalizeRad Math_PI (10 ^ 22) \<and> normalizeRad Math_PI (10 ^ 22) < 1.0635
   \<and> \<bar>normalizeRad Math_PI (10 ^ 22)\<bar> < 2 * Math_PI \<and> 0 \<le> normalizeRad Math_PI (10 ^ 22)
   \<and> \<bar>450 :: real\<bar> \<noteq> 360 \<and> normalizeDeg 450 = 90
   \<and> \<bar>normalizeDeg 450\<bar> < 360 \<and> 0 \<le> normalizeDeg 450"
proof -
  have p: "0 < Math_PI" by (simp add: Math_PI_def)
  have g: "\<bar>10 ^ 22\<bar> \<noteq> 2 * Math_PI" by (simp add: Math_PI_def)
  have z: "(0::real) \<le> 10 ^ 22" by simp
  have g': "\<bar>450 :: real\<bar> \<noteq> 360" and z': "(0::real) \<le> 450" by simp_all
  have v1: "1.0634 < normalizeRad Math_PI (10 ^ 22)"
    unfolding normalizeRad_large by (simp add: Math_PI_def)
  have v2: "normalizeRad Math_PI (10 ^ 22) < 1.0635"
    unfolding normalizeRad_large by (simp add: Math_PI_def)
  note t = normalize_range [OF p, of "10 ^ 22" 450]
  from t g have r1: "\<bar>normalizeRad Math_PI (10 ^ 22)\<bar> < 2 * Math_PI" by blast
  from t g z have r2: "0 \<le> normalizeRad Math_PI (10 ^ 22)" by blast
  from t g' have r3: "\<bar>normalizeDeg 450\<bar> < 360" by blast
  from t g' z' have r4: "0 \<le> normalizeDeg 450" by blast
  from p g normalizeRad_large v1 v2 r1 r2 g' normalizeDeg_450 r3 r4 show ?thesis by blast
qed

text \<open>
  The interval \<open>[0, 2 * pi)\<close> itself fails on a negative angle: \<open>normalizeRad (- 1)\<close> is
  \<open>- 1\<close>, and \<open>normalizeDeg (- 90)\<close> is \<open>- 90\<close>.
\<close>

theorem normalize_range_counterexample:
  "\<bar>- 1\<bar> \<noteq> 2 * pi \<and> normalizeRad pi (- 1) = - 1 \<and> \<not> 0 \<le> normalizeRad pi (- 1)
   \<and> \<bar>- 1\<bar> \<noteq> 2 * Math_PI \<and> normalizeRad Math_PI (- 1) = - 1
   \<and> \<bar>- 90 :: real\<bar> \<noteq> 360 \<and> normalizeDeg (- 90) = - 90 \<and> \<not> 0 \<le> normalizeDeg (- 90)"
proof -
  have "\<bar>- 1 :: real\<bar> < 2 * pi" using pi_ge_two by simp
  then have r: "normalizeRad pi (- 1) = - 1" by (rule normalizeRad_small)
  have "\<bar>- 1 :: real\<bar> < 2 * Math_PI" by (simp add: Math_PI_def)
  then have r': "normalizeRad Math_PI (- 1) = - 1" by (rule normalizeRad_small)
  have m: "\<bar>- 1\<bar> \<noteq> 2 * Math_PI" by (simp add: Math_PI_def)
  have d: "normalizeDeg (- 90) = - 90" by (simp add: normalizeDeg_small)
  from r r' m d pi_ge_two show ?thesis by simp
qed

section \<open>The shorter way round\<close>

text \<open>
  Claim C5. \<open>minRotationAngle start endv\<close> is \<open>endv\<close> when the two angles are at most
  \<open>pi\<close> apart (the comparison is strict, so a distance of exactly \<open>pi\<close> changes
  nothing); otherwise it is \<open>endv + 2 * pi\<close> for a positive \<open>start\<close> and
  \<open>endv - 2 * pi\<close> for any other \<open>start\<close>. In particular
  \<open>minRotationAngle 3 (- 3) = - 3 + 2 * pi\<close>, which lies between 3.283 and 3.284.
  The three cases hold for every value \<open>PI\<close> of \<open>Math.PI\<close>, \<open>pi\<close> among them; the value
  at \<open>(3, - 3)\<close> is given with \<open>pi\<close> and with the program's constant.
\<close>

theorem minRotationAngle_cases:
  "(\<bar>start - endv\<bar> \<le> PI \<longrightarrow> minRotationAngle PI start endv = endv)
   \<and> (PI < \<bar>start - endv\<bar> \<and> 0 < start \<longrightarrow> minRotationAngle PI start endv = endv + 2 * PI)
   \<and> (PI < \<bar>start - endv\<bar> \<and> start \<le> 0 \<longrightarrow> minRotationAngle PI start endv = endv - 2 * PI)
   \<and> minRotationAngle pi 3 (- 3) = - 3 + 2 * pi
   \<and> 3.283 < minRotationAngle pi 3 (- 3) \<and> minRotationAngle pi 3 (- 3) < 3.284
   \<and> minRotationAngle Math_PI 3 (- 3) = - 3 + 2 * Math_PI
   \<and> 3.283 < minRotationAngle Math_PI 3 (- 3) \<and> minRotationAngle Math_PI 3 (- 3) < 3.284"
proof -
  have a: "minRotationAngle pi 3 (- 3) = - 3 + 2 * pi"
    using pi_less_4 by (simp add: minRotationAngle_def TwoPI_def)
  have b: "minRotationAngle Math_PI 3 (- 3) = - 3 + 2 * Math_PI"
    by (simp add: minRotationAngle_def TwoPI_def Math_PI_def)
  have c: "3.283 < - 3 + 2 * Math_PI" "- 3 + 2 * Math_PI < 3.284"
    by (simp_all add: Math_PI_def)
  have d: "3.283 < - 3 + 2 * pi" "- 3 + 2 * pi < 3.284"
    using pi_lower pi_upper by simp_all
  have e: "(\<bar>start - endv\<bar> \<le> PI \<longrightarrow> minRotationAngle PI start endv = endv)
   \<and> (PI < \<bar>start - endv\<bar> \<and> 0 < start \<longrightarrow> minRotationAngle PI start endv = endv + 2 * PI)
   \<and> (PI < \<bar>start - endv\<bar> \<and> start \<le> 0 \<longrightarrow> minRotationAngle PI start endv = endv - 2 * PI)"
    by (simp add: minRotationAngle_def TwoPI_def)
  from d have d': "3.283 < minRotationAngle pi 3 (- 3)" "minRotationAngle pi 3 (- 3) < 3.284"
    by (simp_all only: a)
  from c have c': "3.283 < minRotationAngle Math_PI 3 (- 3)"
    "minRotationAngle Math_PI 3 (- 3) < 3.284"
    by (simp_all only: b)
  from e a d' b c' show ?thesis by blast
qed

theorem minRotationAngle_cases_witness:
  "\<bar>pi - 0\<bar> \<le> pi \<and> minRotationAngle pi pi 0 = 0
   \<and> pi < \<bar>4 - (0::real)\<bar> \<and> (0::real) < 4 \<and> minRotationAngle pi 4 0 = 0 + 2 * pi
   \<and> pi < \<bar>- 4 - (0::real)\<bar> \<and> - 4 \<le> (0::real) \<and> minRotationAngle pi (- 4) 0 = 0 - 2 * pi"
  using minRotationAngle_cases [of pi 0 pi] minRotationAngle_cases [of 4 0 pi]
    minRotationAngle_cases [of "- 4" 0 pi] pi_less_4
  by simp

text \<open>
  Claim C1, as the code has it. The result is always \<open>endv\<close> itself, \<open>endv\<close> plus one
  full turn or \<open>endv\<close> minus one full turn, so it is congruent to \<open>endv\<close> modulo
  \<open>2 * pi\<close>. It is within \<open>pi\<close> of \<open>start\<close> whenever both angles lie in \<open>[- pi, pi]\<close>;
  more generally whenever the two angles were already within \<open>pi\<close>, or \<open>start\<close> is
  positive and ahead of \<open>endv\<close> by more than \<open>pi\<close> and at most \<open>3 * pi\<close>, or \<open>start\<close> is
  not positive and behind \<open>endv\<close> by more than \<open>pi\<close> and at most \<open>3 * pi\<close>. This holds
  for every value \<open>PI\<close> of \<open>Math.PI\<close>, \<open>pi\<close> among them.
\<close>

theorem minRotationAngle_bound:
  "(minRotationAngle PI start endv = endv
      \<or> minRotationAngle PI start endv = endv + 2 * PI
      \<or> minRotationAngle PI start endv = endv - 2 * PI)
   \<and> (\<exists>k::int. minRotationAngle PI start endv = endv + 2 * PI * of_int k)
   \<and> (- PI \<le> start \<and> start \<le> PI \<and> - PI \<le> endv \<and> endv \<le> PI \<longrightarrow>
        \<bar>start - minRotationAngle PI start endv\<bar> \<le> PI)
   \<and> (\<bar>start - endv\<bar> \<le> PI
        \<or> (0 < start \<and> PI < start - endv \<and> start - endv \<le> 3 * PI)
        \<or> (start \<le> 0 \<and> PI < endv - start \<and> endv - start \<le> 3 * PI) \<longrightarrow>
        \<bar>start - minRotationAngle PI start endv\<bar> \<le> PI)"
proof (intro conjI)
  show three: "minRotationAngle PI start endv = endv
      \<or> minRotationAngle PI start endv = endv + 2 * PI
      \<or> minRotationAngle PI start endv = endv - 2 * PI"
    by (simp add: minRotationAngle_def TwoPI_def)
  show "\<exists>k::int. minRotationAngle PI start endv = endv + 2 * PI * of_int k"
  proof -
    from three consider
      "minRotationAngle PI start endv = endv + 2 * PI * of_int 0"
      | "minRotationAngle PI start endv = endv + 2 * PI * of_int 1"
      | "minRotationAngle PI start endv = endv + 2 * PI * of_int (- 1)"
      by auto
    then show ?thesis by cases blast+
  qed
  show "- PI \<le> start \<and> start \<le> PI \<and> - PI \<le> endv \<and> endv \<le> PI \<longrightarrow>
        \<bar>start - minRotationAngle PI start endv\<bar> \<le> PI"
    unfolding minRotationAngle_def TwoPI_def by (auto simp: abs_le_iff)
  show "\<bar>start - endv\<bar> \<le> PI
        \<or> (0 < start \<and> PI < start - endv \<and> start - endv \<le> 3 * PI)
        \<or> (start \<le> 0 \<and> PI < endv - start \<and> endv - start \<le> 3 * PI) \<longrightarrow>
        \<bar>start - minRotationAngle PI start endv\<bar> \<le> PI"
    unfolding minRotationAngle_def TwoPI_def by (auto simp: abs_le_iff)
qed

theorem minRotationAngle_bound_witness:
  "- pi \<le> 3 \<and> 3 \<le> pi \<and> - pi \<le> - 3 \<and> - 3 \<le> pi
   \<and> \<bar>3 - minRotationAngle pi 3 (- 3)\<bar> \<le> pi
   \<and> (\<exists>k::int. minRotationAngle pi 3 (- 3) = - 3 + 2 * pi * of_int k)"
proof -
  have h: "- pi \<le> 3 \<and> 3 \<le> pi \<and> - pi \<le> - 3 \<and> - 3 \<le> pi"
    using pi_lower by simp
  from minRotationAngle_bound [of pi 3 "- 3"] h show ?thesis by blast
qed

text \<open>
  The bound fails for two angles of the same sign: from \<open>1\<close> to \<open>5\<close> the distance is
  above \<open>pi\<close> and \<open>start\<close> is positive, so a full turn is added, away from \<open>start\<close>.
\<close>

theorem minRotationAngle_bound_counterexample:
  "minRotationAngle pi 1 5 = 5 + 2 * pi \<and> \<not> \<bar>1 - minRotationAngle pi 1 5\<bar> \<le> pi"
proof -
  have "minRotationAngle pi 1 5 = 5 + 2 * pi"
    using pi_less_4 by (simp add: minRotationAngle_def TwoPI_def)
  then show ?thesis by simp
qed

section \<open>Orbiting the camera\<close>

lemma position_obj_lookAt: "position (obj_lookAt E t ob) = position ob"
  by (simp add: obj_lookAt_def)

lemma rotateCamera_orbit:
  "rotateCamera E PI (Num a) Undefined Undefined s = Some (orbit E PI a s)"
  by (simp add: rotateCamera_def)

lemma position_orbit_y:
  "axe (cameraRotateOptions s) = ''y'' \<Longrightarrow>
   position (camera (orbit E PI a s)) =
     Vector3
       (vec_x (target (cameraRotateOptions s))
         + (vec_x (position (camera s)) - vec_x (target (cameraRotateOptions s))) * cos (toRad PI a)
         - (vec_z (position (camera s)) - vec_z (target (cameraRotateOptions s))) * sin (toRad PI a))
       (vec_y (position (camera s)))
       (vec_z (target (cameraRotateOptions s))
         + (vec_z (position (camera s)) - vec_z (target (cameraRotateOptions s))) * cos (toRad PI a)
         + (vec_x (position (camera s)) - vec_x (target (cameraRotateOptions s))) * sin (toRad PI a))"
  by (simp add: orbit_def Let_def position_obj_lookAt)

lemma position_orbit_other:
  "axe (cameraRotateOptions s) \<noteq> ''y'' \<Longrightarrow> position (camera (orbit E PI a s)) = position (camera s)"
  by (simp add: orbit_def Let_def position_obj_lookAt)

lemma orientation_orbit_look:
  "isLook (cameraRotateOptions s) \<Longrightarrow>
   orientation (camera (orbit E PI a s)) =
     lookAt E (position (camera (orbit E PI a s))) (target (cameraRotateOptions s))
       (orientation (camera s))"
  by (simp add: orbit_def Let_def obj_lookAt_def)

text \<open>
  Claim C4. With the stored axis \<open>'y'\<close>, the target at \<open>(x0, y0, z0)\<close> and the camera at
  \<open>(px, py, pz)\<close>, the call \<open>rotateCamera(a)\<close> with \<open>a\<close> in degrees moves the camera to
  \<open>(x0 + (px - x0) * cos t - (pz - z0) * sin t, py, z0 + (pz - z0) * cos t + (px - x0) * sin t)\<close>
  where \<open>t\<close> is \<open>a\<close> in radians, \<open>a * (pi / 180)\<close>; the angle the code uses is
  \<open>toRad a\<close>, which differs from \<open>t\<close> by whole turns only. \<open>Math.PI\<close> is read as \<open>pi\<close>.
\<close>

theorem orbit_y_formula:
  assumes "axe (cameraRotateOptions s) = ''y''"
    and "target (cameraRotateOptions s) = Vector3 x0 y0 z0"
    and "position (camera s) = Vector3 px py pz"
  shows "\<exists>s'. rotateCamera E pi (Num a) Undefined Undefined s = Some s'
     \<and> position (camera s') =
         Vector3 (x0 + (px - x0) * cos (a * (pi / 180)) - (pz - z0) * sin (a * (pi / 180)))
                 py
                 (z0 + (pz - z0) * cos (a * (pi / 180)) + (px - x0) * sin (a * (pi / 180)))"
  using assms by (simp add: rotateCamera_orbit position_orbit_y cos_toRad sin_toRad)

theorem orbit_y_formula_witness:
  "axe (cameraRotateOptions st1) = ''y''
   \<and> (\<exists>s'. rotateCamera recording pi (Num 180) Undefined Undefined st1 = Some s'
        \<and> position (camera s') = Vector3 (- 1) 2 (- 3))"
proof -
  have a: "axe (cameraRotateOptions st1) = ''y''"
    and t: "target (cameraRotateOptions st1) = Vector3 1 1 1"
    and p: "position (camera st1) = Vector3 3 2 5"
    by (simp_all add: st1_def)
  from orbit_y_formula [OF a t p, of recording 180] a show ?thesis
    by auto
qed

text \<open>
  Claim C2, as the code has it. With target \<open>(0, 0, 0)\<close>, axis \<open>'y'\<close> and the camera at
  \<open>(0, 0, 5)\<close>, \<open>rotateCamera(90)\<close> moves the camera to \<open>(- 5, 0, 0)\<close>: the new X is
  \<open>0 * cos (pi / 2) - 5 * sin (pi / 2)\<close>. The Y coordinate is unchanged. \<open>Math.PI\<close> is
  read as \<open>pi\<close>.
\<close>

theorem orbit_quarter_turn:
  assumes "axe (cameraRotateOptions s) = ''y''"
    and "target (cameraRotateOptions s) = Vector3 0 0 0"
    and "position (camera s) = Vector3 0 0 5"
  shows "\<exists>s'. rotateCamera E pi (Num 90) Undefined Undefined s = Some s'
     \<and> position (camera s') = Vector3 (- 5) 0 0"
  using assms by (simp add: rotateCamera_orbit position_orbit_y toRad_90)

theorem orbit_quarter_turn_witness:
  "axe (cameraRotateOptions (cameraPos (Vector3 0 0 5) (initial ([] :: engine_call list)))) = ''y''
   \<and> target (cameraRotateOptions (cameraPos (Vector3 0 0 5) (initial ([] :: engine_call list))))
       = Vector3 0 0 0
   \<and> position (camera (cameraPos (Vector3 0 0 5) (initial ([] :: engine_call list))))
       = Vector3 0 0 5
   \<and> (\<exists>s'. rotateCamera recording pi (Num 90) Undefined Undefined
             (cameraPos (Vector3 0 0 5) (initial [])) = Some s'
        \<and> position (camera s') = Vector3 (- 5) 0 0)"
proof -
  let ?s = "cameraPos (Vector3 0 0 5) (initial []) :: engine_call list site3d"
  have a: "axe (cameraRotateOptions ?s) = ''y''"
    and t: "target (cameraRotateOptions ?s) = Vector3 0 0 0"
    and p: "position (camera ?s) = Vector3 0 0 5"
    by (simp_all add: cameraPos_def initial_def)
  from orbit_quarter_turn [OF a t p, of recording] a t p show ?thesis
    by blast
qed

text \<open>
  The camera does not arrive near \<open>(5, 0, 0)\<close>: its X coordinate is \<open>- 5\<close>, at distance
  \<open>10\<close> from \<open>5\<close>.
\<close>

theorem orbit_quarter_turn_counterexample:
  "map_option getCameraPos
     (rotateCamera recording pi (Num 90) Undefined Undefined
        \<lparr>camera = \<lparr>position = Vector3 0 0 5, orientation = []\<rparr>,
         cameraRotateOptions = \<lparr>target = Vector3 0 0 0, axe = ''y'', isLook = False\<rparr>\<rparr>)
     = Some (Vector3 (- 5) 0 0)
   \<and> \<not> \<bar>vec_x (Vector3 (- 5) 0 0) - 5\<bar> \<le> 1"
  by (simp add: rotateCamera_def orbit_def Let_def getCameraPos_def toRad_90)

text \<open>
  Claim C7. With any stored axis other than \<open>'y'\<close>, \<open>rotateCamera(a)\<close> with a single
  number returns normally and the camera stays where it was. The path has no
  \<open>throw\<close>, and the engine's methods are total.
\<close>

theorem orbit_other_axis:
  assumes "axe (cameraRotateOptions s) \<noteq> ''y''"
  shows "\<exists>s'. rotateCamera E PI (Num a) Undefined Undefined s = Some s'
     \<and> position (camera s') = position (camera s)"
  using assms by (simp add: rotateCamera_orbit position_orbit_other)

theorem orbit_other_axis_witness:
  "axe (cameraRotateOptions st_x) \<noteq> ''y''
   \<and> (\<exists>s'. rotateCamera recording Math_PI (Num 90) Undefined Undefined st_x = Some s'
        \<and> position (camera s') = Vector3 0 0 5)"
proof -
  have a: "axe (cameraRotateOptions st_x) \<noteq> ''y''" by (simp add: st_x_def)
  have p: "position (camera st_x) = Vector3 0 0 5" by (simp add: st_x_def)
  from orbit_other_axis [OF a, of recording Math_PI 90] a p show ?thesis by simp
qed

text \<open>
  Claim C10. With the stored \<open>isLook\<close> true, \<open>rotateCamera(a)\<close> ends with the engine's
  \<open>lookAt\<close> on the stored target, from the camera's new position, whatever the stored
  axis is. With an axis other than \<open>'y'\<close> the position is the old one, and the
  orientation is still the one \<open>lookAt\<close> returns; that it can differ from the old one
  shows on the recording engine, with the stored axis \<open>'x'\<close>.
\<close>

theorem orbit_relook:
  "(isLook (cameraRotateOptions s) \<longrightarrow>
      (\<exists>s'. rotateCamera E PI (Num a) Undefined Undefined s = Some s'
         \<and> orientation (camera s') =
             lookAt E (position (camera s')) (target (cameraRotateOptions s))
               (orientation (camera s))
         \<and> (axe (cameraRotateOptions s) \<noteq> ''y'' \<longrightarrow>
               position (camera s') = position (camera s))))
   \<and> (\<exists>s'. rotateCamera recording PI (Num a) Undefined Undefined st_x = Some s'
         \<and> position (camera s') = position (camera st_x)
         \<and> orientation (camera s') \<noteq> orientation (camera st_x))"
proof (intro conjI impI)
  assume "isLook (cameraRotateOptions s)"
  then show "\<exists>s'. rotateCamera E PI (Num a) Undefined Undefined s = Some s'
         \<and> orientation (camera s') =
             lookAt E (position (camera s')) (target (cameraRotateOptions s))
               (orientation (camera s))
         \<and> (axe (cameraRotateOptions s) \<noteq> ''y'' \<longrightarrow>
               position (camera s') = position (camera s))"
    by (simp add: rotateCamera_orbit position_orbit_other orientation_orbit_look)
next
  have x: "axe (cameraRotateOptions st_x) \<noteq> ''y''" and l: "isLook (cameraRotateOptions st_x)"
    by (simp_all add: st_x_def)
  have "orientation (camera (orbit recording PI a st_x)) \<noteq> orientation (camera st_x)"
    using l by (simp add: orientation_orbit_look) (simp add: st_x_def recording_def)
  with x show "\<exists>s'. rotateCamera recording PI (Num a) Undefined Undefined st_x = Some s'
         \<and> position (camera s') = position (camera st_x)
         \<and> orientation (camera s') \<noteq> orientation (camera st_x)"
    by (simp add: rotateCamera_orbit position_orbit_other)
qed

theorem orbit_relook_witness:
  "isLook (cameraRotateOptions st_x) \<and> axe (cameraRotateOptions st_x) = ''x''
   \<and> (\<exists>s'. rotateCamera recording Math_PI (Num 90) Undefined Undefined st_x = Some s'
        \<and> orientation (camera s') = [LookAt (Vector3 0 0 5) (Vector3 0 0 0)]
        \<and> position (camera s') = Vector3 0 0 5)"
proof -
  have l: "isLook (cameraRotateOptions st_x)" by (simp add: st_x_def)
  from orbit_relook [of st_x recording Math_PI 90] l obtain s' where
    r: "rotateCamera recording Math_PI (Num 90) Undefined Undefined st_x = Some s'"
    and o: "orientation (camera s') =
      lookAt recording (position (camera s')) (target (cameraRotateOptions st_x))
        (orientation (camera st_x))"
    and p: "axe (cameraRotateOptions st_x) \<noteq> ''y'' \<longrightarrow>
      position (camera s') = position (camera st_x)"
    by blast
  from p have p': "position (camera s') = Vector3 0 0 5" by (simp add: st_x_def)
  from o p' have "orientation (camera s') = [LookAt (Vector3 0 0 5) (Vector3 0 0 0)]"
    by (simp add: st_x_def recording_def)
  with r p' l show ?thesis by (simp add: st_x_def)
qed

section \<open>Turning about the world axes\<close>

text \<open>
  Claim C9. \<open>rotateWorldRad\<close> on a loaded model and \<open>rotateCameraWorldRad\<close> on the
  camera make three engine calls: \<open>rotateOnWorldAxis\<close> about the world x axis by
  \<open>stepX\<close>, then about the world y axis by \<open>stepY\<close>, then about the world y axis by
  \<open>stepY\<close> again. \<open>stepZ\<close> is never read: the result is the same for every \<open>stepZ\<close>, and
  on the recording engine the calls are these three, none of them about the z axis.
\<close>

theorem rotateWorldRad_calls:
  "(OBJECT m = Some ob \<longrightarrow>
      rotateWorldRad E stepX stepY stepZ m =
        Inr (m\<lparr>OBJECT := Some (ob\<lparr>orientation :=
          rotateOnWorldAxis E axis_y stepY
            (rotateOnWorldAxis E axis_y stepY
              (rotateOnWorldAxis E axis_x stepX (orientation ob)))\<rparr>)\<rparr>))
   \<and> rotateWorldRad E stepX stepY stepZ m = rotateWorldRad E stepX stepY stepZ' m
   \<and> rotateCameraWorldRad E stepX stepY stepZ s =
        s\<lparr>camera := (camera s)\<lparr>orientation :=
          rotateOnWorldAxis E axis_y stepY
            (rotateOnWorldAxis E axis_y stepY
              (rotateOnWorldAxis E axis_x stepX (orientation (camera s))))\<rparr>\<rparr>
   \<and> rotateCameraWorldRad E stepX stepY stepZ s = rotateCameraWorldRad E stepX stepY stepZ' s
   \<and> (OBJECT mr = Some obr \<longrightarrow>
        rotateWorldRad recording stepX stepY stepZ mr =
          Inr (mr\<lparr>OBJECT := Some (obr\<lparr>orientation := orientation obr @
            [RotateOnWorldAxis axis_x stepX, RotateOnWorldAxis axis_y stepY,
             RotateOnWorldAxis axis_y stepY]\<rparr>)\<rparr>))
   \<and> orientation (camera (rotateCameraWorldRad recording stepX stepY stepZ sr)) =
        orientation (camera sr) @
          [RotateOnWorldAxis axis_x stepX, RotateOnWorldAxis axis_y stepY,
           RotateOnWorldAxis axis_y stepY]"
  by (simp add: rotateWorldRad_def rotateCameraWorldRad_def obj_rotateOnWorldAxis_def
      recording_def)

theorem rotateWorldRad_calls_witness:
  "OBJECT model1 = Some \<lparr>position = Vector3 0 0 0, orientation = []\<rparr>
   \<and> rotateWorldRad recording 1 2 3 model1 =
       Inr (model1\<lparr>OBJECT := Some \<lparr>position = Vector3 0 0 0, orientation =
         [RotateOnWorldAxis (Vector3 1 0 0) 1, RotateOnWorldAxis (Vector3 0 1 0) 2,
          RotateOnWorldAxis (Vector3 0 1 0) 2]\<rparr>\<rparr>)
   \<and> rotateWorldRad recording 1 2 3 model1 = rotateWorldRad recording 1 2 4 model1"
proof -
  let ?ob = "\<lparr>position = Vector3 0 0 0, orientation = [] :: engine_call list\<rparr>"
  have o: "OBJECT model1 = Some ?ob"
    by (simp add: model1_def)
  note all = rotateWorldRad_calls [of model1 ?ob recording 1 2 3 4]
  from all o have "rotateWorldRad recording 1 2 3 model1 =
      Inr (model1\<lparr>OBJECT := Some (?ob\<lparr>orientation :=
        rotateOnWorldAxis recording axis_y 2
          (rotateOnWorldAxis recording axis_y 2
            (rotateOnWorldAxis recording axis_x 1 (orientation ?ob)))\<rparr>)\<rparr>)"
    by blast
  moreover from all
  have "rotateWorldRad recording 1 2 3 model1 = rotateWorldRad recording 1 2 4 model1"
    by blast
  ultimately show ?thesis using o
    by (simp add: recording_def axis_x_def axis_y_def)
qed

end
